theory Spec2Isabelle
  imports Main
begin

text \<open>
  A shallow embedding of the two services of the repository: the analogy service
  (\<open>generate_analogy.py\<close>) and the exercise service (\<open>personalized_exercise.py\<close>).
  Both build a prompt from a request, send it to a hosted language model and shape the
  text that comes back. The model, the JSON decoder, the web framework's \<open>jsonify\<close> and
  the clock are outside the repository: the model, the decoder and \<open>jsonify\<close> are
  parameters of the functions that call them, and the clock's reading is an argument. Exceptions are values: a computation returns
  \<open>Inl\<close> of the exception or \<open>Inr\<close> of its result, together with the world it leaves.
\<close>

section \<open>Python strings\<close>

text \<open>
  A Python \<open>str\<close> is a sequence of code points. The model uses \<^typ>\<open>string\<close>, whose
  characters are the code points below 256; the operations below are the library's
  operations on that range.
\<close>

abbreviation dq :: string where
  "dq \<equiv> [CHR 0x22]"

abbreviation sq :: string where
  "sq \<equiv> [CHR 0x27]"

definition isspace :: "char \<Rightarrow> bool" where
  \<comment> \<open>\<open>str.isspace\<close> on one character: TAB to CR, FS to US, space, NEL, NBSP\<close>
  "isspace c = (let n = (of_char c :: nat) in
     (9 \<le> n \<and> n \<le> 13) \<or> (28 \<le> n \<and> n \<le> 32) \<or> n = 133 \<or> n = 160)"

definition strip :: "string \<Rightarrow> string" where
  "strip s = rev (dropWhile isspace (rev (dropWhile isspace s)))"

definition lower_char :: "char \<Rightarrow> char" where
  \<comment> \<open>\<open>A\<close> to \<open>Z\<close> and the accented capitals \<open>0xC0\<close> to \<open>0xDE\<close> (not the
      multiplication sign \<open>0xD7\<close>) move up by 32\<close>
  "lower_char c = (let n = (of_char c :: nat) in
     if (65 \<le> n \<and> n \<le> 90) \<or> (192 \<le> n \<and> n \<le> 222 \<and> n \<noteq> 215)
     then char_of (n + 32) else c)"

definition lower :: "string \<Rightarrow> string" where
  "lower s = map lower_char s"

fun contains :: "string \<Rightarrow> string \<Rightarrow> bool" where
  \<comment> \<open>\<open>needle in hay\<close>\<close>
  "contains needle [] = (needle = [])"
| "contains needle (c # cs) =
     (take (length needle) (c # cs) = needle \<or> contains needle cs)"

fun split_char :: "char \<Rightarrow> string \<Rightarrow> string list" where
  \<comment> \<open>\<open>s.split(sep)\<close> for a separator of one character\<close>
  "split_char sep [] = [[]]"
| "split_char sep (c # cs) =
     (if c = sep then [] # split_char sep cs
      else (case split_char sep cs of
              [] \<Rightarrow> [[c]]
            | l # ls \<Rightarrow> (c # l) # ls))"

fun join :: "string \<Rightarrow> string list \<Rightarrow> string" where
  \<comment> \<open>\<open>sep.join(xs)\<close>\<close>
  "join sep [] = []"
| "join sep [x] = x"
| "join sep (x # y # ys) = x @ sep @ join sep (y # ys)"

fun find_char :: "char \<Rightarrow> string \<Rightarrow> int" where
  \<comment> \<open>\<open>s.find(c)\<close>: the lowest index of \<open>c\<close>, or \<open>-1\<close>\<close>
  "find_char c [] = - 1"
| "find_char c (x # xs) =
     (if x = c then 0
      else (let r = find_char c xs in if r = - 1 then - 1 else r + 1))"

definition rfind_char :: "char \<Rightarrow> string \<Rightarrow> int" where
  \<comment> \<open>\<open>s.rfind(c)\<close>: the highest index of \<open>c\<close>, or \<open>-1\<close>\<close>
  "rfind_char c s =
     (let r = find_char c (rev s) in if r = - 1 then - 1 else int (length s) - 1 - r)"

definition slice :: "string \<Rightarrow> int \<Rightarrow> int \<Rightarrow> string" where
  \<comment> \<open>\<open>s[a:b]\<close>: a negative index counts from the end, and both are clamped\<close>
  "slice s a b =
     (let n = int (length s);
          a' = (if a < 0 then max 0 (n + a) else min a n);
          b' = (if b < 0 then max 0 (n + b) else min b n)
      in drop (nat a') (take (nat b') s))"

definition digit_char :: "nat \<Rightarrow> char" where
  "digit_char d = char_of (48 + d)"

fun str_nat :: "nat \<Rightarrow> string" where
  "str_nat n = (if n < 10 then [digit_char n] else str_nat (n div 10) @ [digit_char (n mod 10)])"

declare str_nat.simps [simp del]

definition str_int :: "int \<Rightarrow> string" where
  \<comment> \<open>\<open>str(i)\<close>, which is also how an f-string formats an \<open>int\<close>\<close>
  "str_int i = (if i < 0 then ''-'' @ str_nat (nat (- i)) else str_nat (nat i))"

section \<open>JSON values, dictionaries, exceptions\<close>

datatype json =
    JNull
  | JBool bool
  | JInt int
  | JFloat string  \<comment> \<open>a \<open>float\<close>, kept as the text that denotes it\<close>
  | JStr string
  | JArr "json list"
  | JObj "(string \<times> json) list"  \<comment> \<open>a \<open>dict\<close>, in insertion order\<close>

type_synonym dict = "(string \<times> json) list"

definition has_key :: "string \<Rightarrow> dict \<Rightarrow> bool" where
  \<comment> \<open>\<open>k in d\<close>\<close>
  "has_key k d = (map_of d k \<noteq> None)"

definition dict_get :: "dict \<Rightarrow> string \<Rightarrow> json \<Rightarrow> json" where
  \<comment> \<open>\<open>d.get(k, default)\<close>\<close>
  "dict_get d k dflt = (case map_of d k of None \<Rightarrow> dflt | Some v \<Rightarrow> v)"

fun dict_set :: "dict \<Rightarrow> string \<Rightarrow> json \<Rightarrow> dict" where
  \<comment> \<open>\<open>d[k] = v\<close>: a key already present keeps its place\<close>
  "dict_set [] k v = [(k, v)]"
| "dict_set ((k', v') # d) k v =
     (if k' = k then (k, v) # d else (k', v') # dict_set d k v)"

fun type_name :: "json \<Rightarrow> string" where
  "type_name JNull = ''NoneType''"
| "type_name (JBool _) = ''bool''"
| "type_name (JInt _) = ''int''"
| "type_name (JFloat _) = ''float''"
| "type_name (JStr _) = ''str''"
| "type_name (JArr _) = ''list''"
| "type_name (JObj _) = ''dict''"

text \<open>
  The exceptions are the subclasses of \<open>Exception\<close>, each with its message. Only
  \<open>JSONDecodeError\<close> is caught by name in the program; \<open>AttributeError\<close> is what a
  method call on a value of the wrong type raises; \<open>RuntimeError\<close> is what the web
  framework raises when it is used outside an application context; \<open>Exception\<close> stands
  for every other class, among them whatever the model collaborator raises.
\<close>

datatype exn =
    JSONDecodeError string
  | AttributeError string
  | RuntimeError string
  | Exception string

fun str_exn :: "exn \<Rightarrow> string" where
  \<comment> \<open>\<open>str(e)\<close>\<close>
  "str_exn (JSONDecodeError m) = m"
| "str_exn (AttributeError m) = m"
| "str_exn (RuntimeError m) = m"
| "str_exn (Exception m) = m"

definition no_attribute :: "json \<Rightarrow> string \<Rightarrow> exn" where
  "no_attribute v a =
     AttributeError (concat [sq, type_name v, sq, '' object has no attribute '', sq, a, sq])"

section \<open>The world: the model collaborator and the prompts sent to it\<close>

text \<open>
  The hosted model is an external, stateful and fallible service: a call takes the
  service's hidden state and the prompt, and gives the response text or an exception,
  and the next hidden state. The world also records every prompt sent, in order.
\<close>

type_synonym 'w model = "'w \<Rightarrow> string \<Rightarrow> (exn + string) \<times> 'w"

record 'w world =
  backend :: 'w
  calls :: "string list"

type_synonym ('a, 'w) py = "'w world \<Rightarrow> (exn + 'a) \<times> 'w world"

definition ret :: "'a \<Rightarrow> ('a, 'w) py" where
  "ret v w = (Inr v, w)"

definition raise :: "exn \<Rightarrow> ('a, 'w) py" where
  "raise e w = (Inl e, w)"

definition lift :: "exn + 'a \<Rightarrow> ('a, 'w) py" where
  "lift r w = (r, w)"

definition bind :: "('a, 'w) py \<Rightarrow> ('a \<Rightarrow> ('b, 'w) py) \<Rightarrow> ('b, 'w) py" where
  \<comment> \<open>one statement after another: an exception skips what follows\<close>
  "bind m f w = (case m w of (Inl e, w') \<Rightarrow> (Inl e, w') | (Inr v, w') \<Rightarrow> f v w')"

definition try_except :: "('a, 'w) py \<Rightarrow> (exn \<Rightarrow> ('a, 'w) py) \<Rightarrow> ('a, 'w) py" where
  \<comment> \<open>\<open>try: m  except Exception as e: h e\<close>\<close>
  "try_except m h w = (case m w of (Inl e, w') \<Rightarrow> h e w' | (Inr v, w') \<Rightarrow> (Inr v, w'))"

definition generate_content :: "'w model \<Rightarrow> string \<Rightarrow> (string, 'w) py" where
  \<comment> \<open>\<open>self.model.generate_content(prompt).text\<close>\<close>
  "generate_content gen prompt w =
     (case gen (backend w) prompt of
        (r, b) \<Rightarrow> (r, w\<lparr>backend := b, calls := calls w @ [prompt]\<rparr>))"

section \<open>The analogy service\<close>

text \<open>
  A dataclass does not check the types of its fields, so the records take the field types
  as parameters: the services read them at the annotated types, the endpoints fill them
  with whatever the request mapping holds.
\<close>

record ('s, 'n, 'l) StudentContext =
  student_id :: 's
  name :: 's
  grade :: 'n
  region :: 's
  local_language :: 's
  cultural_context :: 's
  familiar_concepts :: 'l

record ('c, 's) AnalogyRequest =
  student_context :: 'c
  question :: 's
  subject :: 's
  topic :: 's
  complexity_level :: 's
  preferred_language :: 's

type_synonym student_context = "(string, int, string list) StudentContext"

type_synonym analogy_request = "(student_context, string) AnalogyRequest"

record RegionalProfile =
  common_concepts :: "string list"
  occupations :: "string list"
  festivals :: "string list"
  food :: "string list"

definition rural_india :: RegionalProfile where
  "rural_india = \<lparr>
     common_concepts = [''farming'', ''village market'', ''bullock cart'', ''monsoon'',
                        ''harvest'', ''cattle'', ''well'', ''temple''],
     occupations = [''farmer'', ''shopkeeper'', ''teacher'', ''blacksmith'', ''weaver''],
     festivals = [''Diwali'', ''Holi'', ''harvest festival''],
     food = [''rice'', ''wheat'', ''dal'', ''curry'', ''chapati'']\<rparr>"

definition urban_india :: RegionalProfile where
  "urban_india = \<lparr>
     common_concepts = [''traffic'', ''metro'', ''mall'', ''apartment'', ''office'',
                        ''smartphone'', ''internet''],
     occupations = [''engineer'', ''doctor'', ''business person'', ''teacher'', ''driver''],
     festivals = [''Diwali'', ''Christmas'', ''New Year''],
     food = [''street food'', ''restaurant'', ''fast food'', ''traditional meals'']\<rparr>"

definition tribal_areas :: RegionalProfile where
  "tribal_areas = \<lparr>
     common_concepts = [''forest'', ''tribal dance'', ''traditional crafts'', ''nature'',
                        ''community gathering''],
     occupations = [''hunter'', ''gatherer'', ''craft maker'', ''traditional healer''],
     festivals = [''harvest ceremonies'', ''tribal festivals''],
     food = [''forest produce'', ''traditional recipes'', ''wild vegetables'']\<rparr>"

definition regional_contexts :: "(string \<times> RegionalProfile) list" where
  "regional_contexts =
     [(''rural_india'', rural_india),
      (''urban_india'', urban_india),
      (''tribal_areas'', tribal_areas)]"

definition get_cultural_key :: "string \<Rightarrow> string \<Rightarrow> string" where
  "get_cultural_key cultural_context' region' =
     (let cultural_lower = lower cultural_context';
          region_lower = lower region'
      in if contains ''tribal'' cultural_lower \<or> contains ''adivasi'' cultural_lower
         then ''tribal_areas''
         else if contains ''urban'' cultural_lower \<or> contains ''city'' cultural_lower
         then ''urban_india''
         else ''rural_india'')"

definition detection_prompt :: "string \<Rightarrow> string" where
  "detection_prompt question' = concat [
      ''\<newline>'',
      ''            Analyze the following text and determine the language it'', sq, ''s written in:\<newline>'',
      ''            '', dq, question', dq, ''\<newline>'',
      ''            \<newline>'',
      ''            Respond with just the language name (e.g., '', dq, ''Hindi'', dq, '', '', dq, ''Bengali'', dq, '', '', dq, ''Tamil'', dq, '', '', dq, ''English'', dq, '', etc.)\<newline>'',
      ''            '']"

definition translation_prompt :: "string \<Rightarrow> string \<Rightarrow> string" where
  "translation_prompt detected_language question' = concat [
      ''\<newline>'',
      ''                Translate the following '', detected_language, '' text to English:\<newline>'',
      ''                '', dq, question', dq, ''\<newline>'',
      ''                \<newline>'',
      ''                Provide only the English translation without any additional text.\<newline>'',
      ''                '']"

definition process_question :: "'w model \<Rightarrow> string \<Rightarrow> string \<Rightarrow> (string \<times> string, 'w) py" where
  "process_question gen question' preferred_language' =
     try_except
       (bind (generate_content gen (detection_prompt question')) (\<lambda>text.
          let detected_language = strip text in
          if lower detected_language \<noteq> ''english''
          then bind (generate_content gen (translation_prompt detected_language question'))
                 (\<lambda>text'. ret (detected_language, strip text'))
          else ret (detected_language, question')))
       (\<lambda>e. ret (''English'', question'))"

definition regional_info_for :: "string \<Rightarrow> RegionalProfile" where
  \<comment> \<open>\<open>self.regional_contexts.get(cultural_key, self.regional_contexts["rural_india"])\<close>\<close>
  "regional_info_for cultural_key =
     (case map_of regional_contexts cultural_key of
        None \<Rightarrow> rural_india
      | Some regional_info \<Rightarrow> regional_info)"

definition analogy_prompt :: "analogy_request \<Rightarrow> string \<Rightarrow> string" where
  \<comment> \<open>the f-string of \<open>_create_analogy\<close>\<close>
  "analogy_prompt req translated_question =
     (let context = student_context req;
          cultural_key = get_cultural_key (cultural_context context) (region context);
          regional_info = regional_info_for cultural_key
      in concat [
      ''\<newline>'',
      ''        You are an expert teacher who specializes in creating culturally relevant analogies for students. \<newline>'',
      ''        \<newline>'',
      ''        STUDENT CONTEXT:\<newline>'',
      ''        - Name: '', name context, ''\<newline>'',
      ''        - Grade: '', str_int (grade context), ''\<newline>'',
      ''        - Region: '', region context, ''\<newline>'',
      ''        - Local Language: '', local_language context, ''\<newline>'',
      ''        - Cultural Context: '', cultural_context context, ''\<newline>'',
      ''        - Familiar Concepts: '', join '', '' (familiar_concepts context), ''\<newline>'',
      ''        \<newline>'',
      ''        REGIONAL/CULTURAL INFORMATION:\<newline>'',
      ''        - Common local concepts: '', join '', '' (common_concepts regional_info), ''\<newline>'',
      ''        - Local occupations: '', join '', '' (occupations regional_info), ''\<newline>'',
      ''        - Local festivals: '', join '', '' (festivals regional_info), ''\<newline>'',
      ''        - Local food: '', join '', '' (food regional_info), ''\<newline>'',
      ''        \<newline>'',
      ''        QUESTION TO EXPLAIN: '', dq, translated_question, dq, ''\<newline>'',
      ''        SUBJECT: '', subject req, ''\<newline>'',
      ''        TOPIC: '', topic req, ''\<newline>'',
      ''        COMPLEXITY LEVEL: '', complexity_level req, ''\<newline>'',
      ''        \<newline>'',
      ''        TASK:\<newline>'',
      ''        Create a detailed, culturally relevant analogy that explains the concept in the question using:\<newline>'',
      ''        1. Local and familiar concepts from the student'', sq, ''s environment\<newline>'',
      ''        2. Everyday experiences the student can relate to\<newline>'',
      ''        3. Simple language appropriate for grade '', str_int (grade context), ''\<newline>'',
      ''        4. Step-by-step explanation building from familiar to unfamiliar\<newline>'',
      ''        5. Examples from local culture, geography, or daily life\<newline>'',
      ''        \<newline>'',
      ''        STRUCTURE YOUR RESPONSE AS:\<newline>'',
      ''        1. **Simple Explanation**: Start with a basic explanation in simple terms\<newline>'',
      ''        2. **Local Analogy**: Provide a detailed analogy using familiar local concepts\<newline>'',
      ''        3. **Connection**: Clearly connect the analogy back to the original concept\<newline>'',
      ''        4. **Example**: Give a practical example from the student'', sq, ''s local environment\<newline>'',
      ''        5. **Summary**: Summarize the key learning points\<newline>'',
      ''        \<newline>'',
      ''        Make sure the analogy is:\<newline>'',
      ''        - Culturally sensitive and appropriate\<newline>'',
      ''        - Age-appropriate for grade '', str_int (grade context), ''\<newline>'',
      ''        - Easy to understand and remember\<newline>'',
      ''        - Relevant to the student'', sq, ''s daily life experience\<newline>'',
      ''        ''])"

definition create_analogy :: "'w model \<Rightarrow> analogy_request \<Rightarrow> string \<Rightarrow> (string, 'w) py" where
  "create_analogy gen req translated_question =
     generate_content gen (analogy_prompt req translated_question)"

definition translate_out_prompt :: "string \<Rightarrow> string \<Rightarrow> string" where
  "translate_out_prompt preferred_language' response = concat [
      ''\<newline>'',
      ''                Translate the following English text to '', preferred_language', '', maintaining the structure and cultural references:\<newline>'',
      ''                \<newline>'',
      ''                '', dq, response, dq, ''\<newline>'',
      ''                \<newline>'',
      ''                Make sure to:\<newline>'',
      ''                1. Keep the educational structure intact\<newline>'',
      ''                2. Maintain cultural references and analogies\<newline>'',
      ''                3. Use appropriate language level for a grade school student\<newline>'',
      ''                4. Preserve the key learning concepts\<newline>'',
      ''                \<newline>'',
      ''                Provide only the translated text.\<newline>'',
      ''                '']"

definition translate_response :: "'w model \<Rightarrow> string \<Rightarrow> string \<Rightarrow> string \<Rightarrow> (string, 'w) py" where
  "translate_response gen response preferred_language' detected_language =
     try_except
       (if lower preferred_language' \<noteq> ''english'' \<and> lower detected_language \<noteq> ''english''
        then bind (generate_content gen (translate_out_prompt preferred_language' response))
               (\<lambda>text. ret (strip text))
        else ret response)
       (\<lambda>e. ret response)"

definition failure_envelope :: "exn \<Rightarrow> string \<Rightarrow> json" where
  "failure_envelope e sid =
     JObj [(''success'', JBool False), (''error'', JStr (str_exn e)), (''student_id'', JStr sid)]"


definition get_supported_languages :: "string list" where
  "get_supported_languages =
     [''English'', ''Hindi'', ''Bengali'', ''Tamil'', ''Telugu'', ''Marathi'',
      ''Gujarati'', ''Kannada'', ''Malayalam'', ''Punjabi'', ''Odia'', ''Assamese'']"

definition generate_local_analogy ::
    "dict \<Rightarrow> (json + ((json, json, json) StudentContext, json) AnalogyRequest, 'w) py" where
  \<comment> \<open>the result is the failure envelope (\<open>Inl\<close>) or the request built (\<open>Inr\<close>)\<close>
  "generate_local_analogy data =
     (if data = [] \<or> \<not> has_key ''student_context'' data \<or> \<not> has_key ''question'' data
      then ret (Inl (JObj [(''success'', JBool False),
                           (''error'', JStr ''Student context and question are required'')]))
      else (case dict_get data ''student_context'' JNull of
              JObj context_data \<Rightarrow>
                ret (Inr \<lparr>
                  student_context = \<lparr>
                    student_id = dict_get context_data ''student_id'' (JStr ''''),
                    name = dict_get context_data ''name'' (JStr ''''),
                    grade = dict_get context_data ''grade'' (JInt 1),
                    region = dict_get context_data ''region'' (JStr ''Rural India''),
                    local_language = dict_get context_data ''local_language'' (JStr ''Hindi''),
                    cultural_context = dict_get context_data ''cultural_context'' (JStr ''rural''),
                    familiar_concepts = dict_get context_data ''familiar_concepts'' (JArr [])\<rparr>,
                  question = dict_get data ''question'' (JStr ''''),
                  subject = dict_get data ''subject'' (JStr ''General''),
                  topic = dict_get data ''topic'' (JStr ''Basic Concepts''),
                  complexity_level = dict_get data ''complexity_level'' (JStr ''simple''),
                  preferred_language = dict_get data ''preferred_language'' (JStr ''English'')\<rparr>)
            | context_data \<Rightarrow> raise (no_attribute context_data ''get'')))"

section \<open>The exercise service\<close>

record ('s, 'n, 'l) StudentProfile =
  student_id_sp :: 's
  name_sp :: 's
  grade_sp :: 'n
  learning_level :: 's
  learning_style :: 's
  weaknesses :: 'l
  strengths :: 'l
  language_preference :: 's

record ('p, 's, 'n, 'l) ExerciseRequest =
  student_profile :: 'p
  subject_ex :: 's
  topic_ex :: 's
  difficulty_level :: 's
  exercise_count :: 'n
  exercise_types :: 'l

type_synonym student_profile = "(string, int, string list) StudentProfile"

type_synonym exercise_request = "(student_profile, string, int, string list) ExerciseRequest"

definition create_exercise_prompt :: "exercise_request \<Rightarrow> string" where
  "create_exercise_prompt req =
     (let student = student_profile req
      in concat [
      ''\<newline>'',
      ''        You are an expert educational content creator. Generate '', str_int (exercise_count req), '' personalized practice exercises for a student with the following profile:\<newline>'',
      ''\<newline>'',
      ''        STUDENT PROFILE:\<newline>'',
      ''        - Name: '', name_sp student, ''\<newline>'',
      ''        - Grade: '', str_int (grade_sp student), ''\<newline>'',
      ''        - Learning Level: '', learning_level student, ''\<newline>'',
      ''        - Learning Style: '', learning_style student, ''\<newline>'',
      ''        - Primary Language: '', language_preference student, ''\<newline>'',
      ''        - Weaknesses: '', join '', '' (weaknesses student), ''\<newline>'',
      ''        - Strengths: '', join '', '' (strengths student), ''\<newline>'',
      ''\<newline>'',
      ''        EXERCISE REQUIREMENTS:\<newline>'',
      ''        - Subject: '', subject_ex req, ''\<newline>'',
      ''        - Topic: '', topic_ex req, ''\<newline>'',
      ''        - Difficulty Level: '', difficulty_level req, ''\<newline>'',
      ''        - Exercise Types: '', join '', '' (exercise_types req), ''\<newline>'',
      ''\<newline>'',
      ''        PERSONALIZATION GUIDELINES:\<newline>'',
      ''        1. Target the student'', sq, ''s identified weaknesses while building on their strengths\<newline>'',
      ''        2. Adapt to their learning style:\<newline>'',
      ''           - Visual: Include diagrams, charts, or visual elements\<newline>'',
      ''           - Auditory: Include sound-based or rhythm-based elements\<newline>'',
      ''           - Kinesthetic: Include hands-on or movement-based activities\<newline>'',
      ''           - Reading/Writing: Focus on text-based exercises\<newline>'',
      ''        3. Use appropriate complexity for their learning level\<newline>'',
      ''        4. If language preference is not English, provide translations or explanations in their preferred language\<newline>'',
      ''        5. Create scaffolded exercises that gradually increase in difficulty\<newline>'',
      ''\<newline>'',
      ''        OUTPUT FORMAT:\<newline>'',
      ''        Provide the response as a JSON object with the following structure:\<newline>'',
      ''        {\<newline>'',
      ''            '', dq, ''exercises'', dq, '': [\<newline>'',
      ''                {\<newline>'',
      ''                    '', dq, ''id'', dq, '': 1,\<newline>'',
      ''                    '', dq, ''type'', dq, '': '', dq, ''exercise_type'', dq, '',\<newline>'',
      ''                    '', dq, ''question'', dq, '': '', dq, ''exercise question/prompt'', dq, '',\<newline>'',
      ''                    '', dq, ''options'', dq, '': ['', dq, ''option1'', dq, '', '', dq, ''option2'', dq, '', '', dq, ''option3'', dq, '', '', dq, ''option4'', dq, ''] (for multiple choice),\<newline>'',
      ''                    '', dq, ''correct_answer'', dq, '': '', dq, ''correct answer or explanation'', dq, '',\<newline>'',
      ''                    '', dq, ''explanation'', dq, '': '', dq, ''detailed explanation of the solution'', dq, '',\<newline>'',
      ''                    '', dq, ''difficulty'', dq, '': '', dq, ''beginner/intermediate/advanced'', dq, '',\<newline>'',
      ''                    '', dq, ''learning_objective'', dq, '': '', dq, ''what this exercise aims to teach'', dq, '',\<newline>'',
      ''                    '', dq, ''personalization_notes'', dq, '': '', dq, ''how this addresses student'', sq, ''s specific needs'', dq, ''\<newline>'',
      ''                }\<newline>'',
      ''            ]\<newline>'',
      ''        }\<newline>'',
      ''\<newline>'',
      ''        Generate exercises that are engaging, age-appropriate, and specifically designed to help this student overcome their weaknesses while leveraging their learning style.\<newline>'',
      ''        ''])"

definition new_exercise :: "exercise_request \<Rightarrow> int \<Rightarrow> string \<Rightarrow> dict" where
  \<comment> \<open>the dictionary built in the loop of \<open>_create_fallback_exercises\<close>\<close>
  "new_exercise req exercise_count' line =
     [(''id'', JInt (exercise_count' + 1)),
      (''type'', JStr (case exercise_types req of [] \<Rightarrow> ''short_answer'' | t # ts \<Rightarrow> t)),
      (''question'', JStr line),
      (''correct_answer'', JStr ''Answer will be provided by teacher''),
      (''explanation'', JStr ''Detailed explanation will be provided''),
      (''difficulty'', JStr (difficulty_level req)),
      (''learning_objective'', JStr (concat [''Practice '', topic_ex req, '' concepts''])),
      (''personalization_notes'', JStr (concat [''Adapted for '', learning_style (student_profile req), '' learning style'']))]"

text \<open>
  The loop's variables are \<open>exercises\<close>, \<open>current_exercise\<close> and \<open>exercise_count\<close>; one
  step is one pass through the body of the \<open>for\<close>.
\<close>

fun fallback_step ::
    "exercise_request \<Rightarrow> json list \<times> dict \<times> int \<Rightarrow> string \<Rightarrow> json list \<times> dict \<times> int" where
  "fallback_step req (exercises, current_exercise, exercise_count') line0 =
     (let line = strip line0 in
      if line \<noteq> [] \<and> exercise_count' < exercise_count req
      then (if current_exercise = []
            then (let current_exercise = new_exercise req exercise_count' line
                  in (exercises @ [JObj current_exercise], [], exercise_count' + 1))
            else (exercises, current_exercise, exercise_count'))
      else (exercises, current_exercise, exercise_count'))"

definition create_fallback_exercises :: "string \<Rightarrow> exercise_request \<Rightarrow> json" where
  "create_fallback_exercises text req =
     (let lines = split_char CHR ''\<newline>'' (strip text)
      in case foldl (fallback_step req) ([], [], 0) lines of
           (exercises, current_exercise, exercise_count') \<Rightarrow> JArr exercises)"

text \<open>
  The fallback as the specification words it: the non-empty trimmed lines of the text,
  and one record for each of them while the number of records is below
  \<open>exercise_count\<close>.
\<close>

definition nonempty_lines :: "string \<Rightarrow> string list" where
  "nonempty_lines text =
     filter (\<lambda>line. line \<noteq> []) (map strip (split_char CHR ''\<newline>'' (strip text)))"

fun synthesized :: "exercise_request \<Rightarrow> int \<Rightarrow> string list \<Rightarrow> json list" where
  "synthesized req n [] = []"
| "synthesized req n (line # lines) =
     (if n < exercise_count req
      then JObj (new_exercise req n line) # synthesized req (n + 1) lines
      else [])"

definition parse_exercises_response ::
    "(string \<Rightarrow> exn + json) \<Rightarrow> string \<Rightarrow> exercise_request \<Rightarrow> exn + json" where
  \<comment> \<open>\<open>loads\<close> is \<open>json.loads\<close>\<close>
  "parse_exercises_response loads response_text req =
     (let start_idx = find_char CHR ''{'' response_text;
          end_idx = rfind_char CHR ''}'' response_text + 1
      in if start_idx \<noteq> - 1 \<and> end_idx \<noteq> 0
         then (let json_str = slice response_text start_idx end_idx
               in case loads json_str of
                    Inl (JSONDecodeError m) \<Rightarrow> Inr (create_fallback_exercises response_text req)
                  | Inl e \<Rightarrow> Inl e
                  | Inr (JObj parsed_data) \<Rightarrow> Inr (dict_get parsed_data ''exercises'' (JArr []))
                  | Inr parsed_data \<Rightarrow> Inl (no_attribute parsed_data ''get''))
         else Inr (create_fallback_exercises response_text req))"

definition generate_exercises ::
    "'w model \<Rightarrow> (string \<Rightarrow> exn + json) \<Rightarrow> string \<Rightarrow> exercise_request \<Rightarrow> (json, 'w) py" where
  \<comment> \<open>\<open>now\<close> is what \<open>datetime.now().isoformat()\<close> reads from the clock\<close>
  "generate_exercises gen loads now exercise_request =
     try_except
       (let prompt = create_exercise_prompt exercise_request in
        bind (generate_content gen prompt) (\<lambda>response_text.
        bind (lift (parse_exercises_response loads response_text exercise_request)) (\<lambda>exercises.
        ret (JObj [
          (''success'', JBool True),
          (''student_id'', JStr (student_id_sp (student_profile exercise_request))),
          (''subject'', JStr (subject_ex exercise_request)),
          (''topic'', JStr (topic_ex exercise_request)),
          (''exercises'', exercises),
          (''generated_at'', JStr now),
          (''personalization_factors'', JObj [
             (''learning_level'', JStr (learning_level (student_profile exercise_request))),
             (''learning_style'', JStr (learning_style (student_profile exercise_request))),
             (''targeted_weaknesses'',
                JArr (map JStr (weaknesses (student_profile exercise_request))))])]))))
       (\<lambda>e. ret (failure_envelope e (student_id_sp (student_profile exercise_request))))"

text \<open>
  \<open>jsonify\<close> is the web framework's: it builds a response from the current application,
  and raises \<open>RuntimeError\<close> when there is none. The endpoint takes it as a parameter, a
  function that gives the response (modelled by the body it carries) or the exception.
\<close>

definition generate_personalized_exercises ::
    "(json \<Rightarrow> exn + json) \<Rightarrow> dict \<Rightarrow> (json \<times> int +
        ((json, json, json) StudentProfile, json, json, json) ExerciseRequest, 'w) py" where
  \<comment> \<open>the result is a response with its status (\<open>Inl\<close>) or the request built (\<open>Inr\<close>)\<close>
  "generate_personalized_exercises jsonify data =
     try_except
       (if data = [] \<or> \<not> has_key ''student_profile'' data
        then bind (lift (jsonify (JObj [(''success'', JBool False),
                                        (''error'', JStr ''Student profile is required'')])))
               (\<lambda>response. ret (Inl (response, 400)))
        else (case dict_get data ''student_profile'' JNull of
                JObj profile_data \<Rightarrow>
                  ret (Inr \<lparr>
                    student_profile = \<lparr>
                      student_id_sp = dict_get profile_data ''student_id'' (JStr ''''),
                      name_sp = dict_get profile_data ''name'' (JStr ''''),
                      grade_sp = dict_get profile_data ''grade'' (JInt 1),
                      learning_level = dict_get profile_data ''learning_level'' (JStr ''beginner''),
                      learning_style = dict_get profile_data ''learning_style'' (JStr ''visual''),
                      weaknesses = dict_get profile_data ''weaknesses'' (JArr []),
                      strengths = dict_get profile_data ''strengths'' (JArr []),
                      language_preference =
                        dict_get profile_data ''language_preference'' (JStr ''English'')\<rparr>,
                    subject_ex = dict_get data ''subject'' (JStr ''Mathematics''),
                    topic_ex = dict_get data ''topic'' (JStr ''Basic Operations''),
                    difficulty_level = dict_get data ''difficulty_level'' (JStr ''beginner''),
                    exercise_count = dict_get data ''exercise_count'' (JInt 5),
                    exercise_types =
                      dict_get data ''exercise_types'' (JArr [JStr ''multiple_choice''])\<rparr>)
              | profile_data \<Rightarrow> raise (no_attribute profile_data ''get'')))
       (\<lambda>e. bind (lift (jsonify (JObj [(''success'', JBool False),
                                        (''error'', JStr (str_exn e))])))
               (\<lambda>response. ret (Inl (response, 500))))"

section \<open>The JSON decoder\<close>

text \<open>
  \<open>json.loads\<close> belongs to the language's library. The parser above takes it as a
  parameter; the decoder below is the library's scanner, used where a concrete text is
  decoded: optional whitespace, one value, optional whitespace, and nothing more. A text
  it rejects raises \<open>JSONDecodeError\<close>, whose message the program never reads and which
  is left empty here. A string escape \<open>\\u\<close> naming a code point above 255 is outside
  the characters of the model and is rejected as well. The recursion on nested values
  is counted down from twice the length of the text, which is shown below to be enough.
\<close>

definition is_ws :: "char \<Rightarrow> bool" where
  "is_ws c = (c = CHR '' '' \<or> c = CHR 0x09 \<or> c = CHR ''\<newline>'' \<or> c = CHR 0x0D)"

definition skip_ws :: "string \<Rightarrow> string" where
  "skip_ws s = dropWhile is_ws s"

definition is_digit :: "char \<Rightarrow> bool" where
  "is_digit c = (let n = (of_char c :: nat) in 48 \<le> n \<and> n \<le> 57)"

definition hex_val :: "char \<Rightarrow> nat option" where
  "hex_val c = (let n = (of_char c :: nat) in
     if 48 \<le> n \<and> n \<le> 57 then Some (n - 48)
     else if 65 \<le> n \<and> n \<le> 70 then Some (n - 55)
     else if 97 \<le> n \<and> n \<le> 102 then Some (n - 87)
     else None)"

definition hex4 :: "char \<Rightarrow> char \<Rightarrow> char \<Rightarrow> char \<Rightarrow> nat option" where
  "hex4 a b c d =
     (case (hex_val a, hex_val b, hex_val c, hex_val d) of
        (Some x, Some y, Some z, Some u) \<Rightarrow> Some (((x * 16 + y) * 16 + z) * 16 + u)
      | _ \<Rightarrow> None)"

definition unescape :: "char \<Rightarrow> char option" where
  \<comment> \<open>the character after a backslash\<close>
  "unescape e =
     (if e = CHR 0x22 then Some (CHR 0x22)
      else if e = CHR 0x5C then Some (CHR 0x5C)
      else if e = CHR ''/'' then Some (CHR ''/'')
      else if e = CHR ''b'' then Some (CHR 0x08)
      else if e = CHR ''f'' then Some (CHR 0x0C)
      else if e = CHR ''n'' then Some (CHR ''\<newline>'')
      else if e = CHR ''r'' then Some (CHR 0x0D)
      else if e = CHR ''t'' then Some (CHR 0x09)
      else None)"

fun scan_string :: "string \<Rightarrow> string \<Rightarrow> (string \<times> string) option" where
  \<comment> \<open>after the opening quote; the characters read so far are kept in reverse\<close>
  "scan_string acc [] = None"
| "scan_string acc [c] = (if c = CHR 0x22 then Some (rev acc, []) else None)"
| "scan_string acc (c # e # cs) =
     (if c = CHR 0x22 then Some (rev acc, e # cs)
      else if c = CHR 0x5C
      then (if e = CHR ''u''
            then (case cs of
                    h1 # h2 # h3 # h4 # rest \<Rightarrow>
                      (case hex4 h1 h2 h3 h4 of
                         None \<Rightarrow> None
                       | Some n \<Rightarrow> if n < 256 then scan_string (char_of n # acc) rest else None)
                  | _ \<Rightarrow> None)
            else (case unescape e of
                    None \<Rightarrow> None
                  | Some ch \<Rightarrow> scan_string (ch # acc) cs))
      else if (of_char c :: nat) < 32 then None
      else scan_string (c # acc) (e # cs))"

definition nat_of_digits :: "string \<Rightarrow> nat" where
  "nat_of_digits ds = foldl (\<lambda>n c. 10 * n + (of_char c - 48)) 0 ds"

definition scan_sign :: "string \<Rightarrow> string \<times> string" where
  \<comment> \<open>\<open>-?\<close>: the part matched and the rest\<close>
  "scan_sign s =
     (case s of [] \<Rightarrow> ([], s) | c # cs \<Rightarrow> if c = CHR ''-'' then ([c], cs) else ([], s))"

definition scan_int_part :: "string \<Rightarrow> string \<times> string" where
  \<comment> \<open>\<open>0|[1-9]\\d*\<close>\<close>
  "scan_int_part s =
     (case s of [] \<Rightarrow> ([], s)
      | c # cs \<Rightarrow> if c = CHR ''0'' then ([c], cs)
                else (takeWhile is_digit s, dropWhile is_digit s))"

definition scan_frac :: "string \<Rightarrow> string \<times> string" where
  \<comment> \<open>\<open>(\\.\\d+)?\<close>\<close>
  "scan_frac s =
     (case s of [] \<Rightarrow> ([], s)
      | c # cs \<Rightarrow> if c = CHR ''.'' \<and> takeWhile is_digit cs \<noteq> []
                then (c # takeWhile is_digit cs, dropWhile is_digit cs)
                else ([], s))"

definition scan_exp :: "string \<Rightarrow> string \<times> string" where
  \<comment> \<open>\<open>([eE][-+]?\\d+)?\<close>\<close>
  "scan_exp s =
     (case s of [] \<Rightarrow> ([], s)
      | c # cs \<Rightarrow>
          if c = CHR ''e'' \<or> c = CHR ''E''
          then (let (sg, ds) = (case cs of [] \<Rightarrow> ([], cs)
                      | d # ds \<Rightarrow> if d = CHR ''-'' \<or> d = CHR ''+''
                                then ([d], ds) else ([], cs))
                in if takeWhile is_digit ds \<noteq> []
                   then (c # sg @ takeWhile is_digit ds, dropWhile is_digit ds)
                   else ([], s))
          else ([], s))"

definition scan_number :: "string \<Rightarrow> (json \<times> string) option" where
  \<comment> \<open>the longest prefix that is \<open>-?(0|[1-9]\\d*)(\\.\\d+)?([eE][-+]?\\d+)?\<close>: an
      \<open>int\<close> when it has neither fraction nor exponent\<close>
  "scan_number s =
     (case scan_sign s of (sign, s1) \<Rightarrow>
      case scan_int_part s1 of (ipart, s2) \<Rightarrow>
      case scan_frac s2 of (frac, s3) \<Rightarrow>
      case scan_exp s3 of (expo, s4) \<Rightarrow>
        if ipart = [] then None
        else if frac = [] \<and> expo = []
        then Some (JInt (if sign = [] then int (nat_of_digits ipart)
                         else - int (nat_of_digits ipart)), s4)
        else Some (JFloat (sign @ ipart @ frac @ expo), s4))"

definition starts_with :: "string \<Rightarrow> string \<Rightarrow> bool" where
  "starts_with p s = (take (length p) s = p)"

fun scan_value :: "nat \<Rightarrow> string \<Rightarrow> (json \<times> string) option"
  and scan_array :: "nat \<Rightarrow> json list \<Rightarrow> string \<Rightarrow> (json list \<times> string) option"
  and scan_object :: "nat \<Rightarrow> dict \<Rightarrow> string \<Rightarrow> (dict \<times> string) option" where
  "scan_value 0 s = None"
| "scan_value (Suc n) [] = None"
| "scan_value (Suc n) (c # cs) =
     (if c = CHR 0x22
      then (case scan_string [] cs of
              None \<Rightarrow> None
            | Some (str, r) \<Rightarrow> Some (JStr str, r))
      else if c = CHR ''{''
      then (if starts_with ''}'' (skip_ws cs) then Some (JObj [], tl (skip_ws cs))
            else (case scan_object n [] (skip_ws cs) of
                    None \<Rightarrow> None
                  | Some (d, r) \<Rightarrow> Some (JObj d, r)))
      else if c = CHR ''[''
      then (if starts_with '']'' (skip_ws cs) then Some (JArr [], tl (skip_ws cs))
            else (case scan_array n [] (skip_ws cs) of
                    None \<Rightarrow> None
                  | Some (vs, r) \<Rightarrow> Some (JArr vs, r)))
      else if starts_with ''null'' (c # cs) then Some (JNull, drop 4 (c # cs))
      else if starts_with ''true'' (c # cs) then Some (JBool True, drop 4 (c # cs))
      else if starts_with ''false'' (c # cs) then Some (JBool False, drop 5 (c # cs))
      else (case scan_number (c # cs) of
              Some r \<Rightarrow> Some r
            | None \<Rightarrow>
                if starts_with ''NaN'' (c # cs) then Some (JFloat ''NaN'', drop 3 (c # cs))
                else if starts_with ''Infinity'' (c # cs)
                then Some (JFloat ''Infinity'', drop 8 (c # cs))
                else if starts_with ''-Infinity'' (c # cs)
                then Some (JFloat ''-Infinity'', drop 9 (c # cs))
                else None))"
| "scan_array 0 acc s = None"
| "scan_array (Suc n) acc s =
     (case scan_value n s of
        None \<Rightarrow> None
      | Some (v, r) \<Rightarrow>
          (if starts_with '']'' (skip_ws r) then Some (acc @ [v], tl (skip_ws r))
           else if starts_with '','' (skip_ws r)
           then scan_array n (acc @ [v]) (skip_ws (tl (skip_ws r)))
           else None))"
| "scan_object 0 acc s = None"
| "scan_object (Suc n) acc s =
     (if starts_with dq s
      then (case scan_string [] (tl s) of
              None \<Rightarrow> None
            | Some (k, r) \<Rightarrow>
                (if starts_with '':'' (skip_ws r)
                 then (case scan_value n (skip_ws (tl (skip_ws r))) of
                         None \<Rightarrow> None
                       | Some (v, r') \<Rightarrow>
                           (if starts_with ''}'' (skip_ws r')
                            then Some (dict_set acc k v, tl (skip_ws r'))
                            else if starts_with '','' (skip_ws r')
                            then scan_object n (dict_set acc k v) (skip_ws (tl (skip_ws r')))
                            else None))
                 else None))
      else None)"

definition json_loads :: "string \<Rightarrow> exn + json" where
  "json_loads s =
     (case scan_value (2 * length s + 2) (skip_ws s) of
        None \<Rightarrow> Inl (JSONDecodeError [])
      | Some (v, r) \<Rightarrow> if skip_ws r = [] then Inr v else Inl (JSONDecodeError []))"

section \<open>Envelopes\<close>


section \<open>Example inputs\<close>

definition guru_profile :: student_profile where
  "guru_profile = \<lparr>
     student_id_sp = ''1234'', name_sp = ''GURU'', grade_sp = 5,
     learning_level = ''beginner'', learning_style = ''visual'',
     weaknesses = [''focus''], strengths = [''visualization'', ''creativity''],
     language_preference = ''Hindi''\<rparr>"

definition exercise_request_of :: "int \<Rightarrow> exercise_request" where
  \<comment> \<open>a request like that of \<open>generate_synthetic_data\<close>, with the given
      \<open>exercise_count\<close>\<close>
  "exercise_request_of n = \<lparr>
     student_profile = guru_profile,
     subject_ex = ''Mathematics'', topic_ex = ''Basic Operations'',
     difficulty_level = ''beginner'', exercise_count = n,
     exercise_types = [''multiple_choice'']\<rparr>"



definition two_exercises_text :: string where
  \<comment> \<open>\<open>{"exercises": [{"id": 1}, {"id": 2}]}\<close>\<close>
  "two_exercises_text =
     concat [''{'', dq, ''exercises'', dq, '': [{'', dq, ''id'', dq, '': 1}, {'', dq, ''id'', dq,
             '': 2}]}'']"

definition no_exercises_body :: string where
  \<comment> \<open>between braces, the object \<open>{"exercises": []}\<close>\<close>
  "no_exercises_body = concat [dq, ''exercises'', dq, '': []'']"

definition one_exercise_body :: string where
  \<comment> \<open>between braces, the object \<open>{"exercises": [{"id": 1}]}\<close>\<close>
  "one_exercise_body = concat [dq, ''exercises'', dq, '': [{'', dq, ''id'', dq, '': 1}]'']"

definition five_lines :: string where
  "five_lines = ''What is 2 + 3?\<newline>What is 7 - 4?\<newline>\<newline>What is 6 * 2?\<newline>  What is 9 / 3?\<newline>What is 5 + 5?\<newline>''"

definition start_world :: "nat world" where
  "start_world = \<lparr>backend = 0, calls = []\<rparr>"

definition failing_model :: "nat model" where
  \<comment> \<open>a collaborator that is out of quota: every call raises\<close>
  "failing_model n prompt = (Inl (Exception ''quota exceeded''), Suc n)"

definition hindi_then_failing_model :: "nat model" where
  \<comment> \<open>a collaborator that answers the first call with \<open>Hindi\<close> and fails afterwards\<close>
  "hindi_then_failing_model n prompt =
     (if n = 0 then Inr ''Hindi\<newline>'' else Inl (Exception ''quota exceeded''), Suc n)"

definition hindi_model :: "nat model" where
  \<comment> \<open>a collaborator that answers every call with \<open>Hindi\<close> between spaces\<close>
  "hindi_model n prompt = (Inr '' Hindi '', Suc n)"



definition jsonify_outside_context :: "string \<Rightarrow> json \<Rightarrow> exn + json" where
  \<comment> \<open>\<open>jsonify\<close> where no application exists, as in this repository, whose only line
      that builds one is a comment; \<open>m\<close> is the message of the framework's version\<close>
  "jsonify_outside_context m body = Inl (RuntimeError m)"

definition jsonify_in_context :: "json \<Rightarrow> exn + json" where
  \<comment> \<open>\<open>jsonify\<close> inside an application context\<close>
  "jsonify_in_context body = Inr body"

section \<open>The cultural-context classifier\<close>

lemma get_cultural_key_cases:
  "get_cultural_key c r = ''tribal_areas'' \<or> get_cultural_key c r = ''urban_india''
     \<or> get_cultural_key c r = ''rural_india''"
  by (simp add: get_cultural_key_def Let_def)

lemma get_cultural_key_ignores_region:
  "get_cultural_key c r = get_cultural_key c r'"
  by (simp add: get_cultural_key_def Let_def)

text \<open>
  C1. The classifier is meant to look for the markers in the cultural context and in the
  region. It lowercases the region and then never reads it: with the cultural context
  \<open>Urban\<close> and the region \<open>Tribal Belt\<close> it answers \<open>urban_india\<close>, where the rule
  stated for it gives \<open>tribal_areas\<close>.
\<close>

theorem get_cultural_key_urban_tribal_belt:
  "get_cultural_key ''Urban'' ''Tribal Belt'' = ''urban_india''"
  by code_simp

text \<open>
  C10. Whatever the two strings, the classifier's key is one of the three keys of the
  table of regional contexts, so the lookup in the analogy builder finds an entry and
  never takes its default.
\<close>

theorem cultural_key_in_regional_contexts:
  "get_cultural_key c r \<in> {''tribal_areas'', ''urban_india'', ''rural_india''} \<and>
   fst ` set regional_contexts = {''tribal_areas'', ''urban_india'', ''rural_india''} \<and>
   map_of regional_contexts (get_cultural_key c r) \<noteq> None \<and>
   map_of regional_contexts (get_cultural_key c r)
     = Some (regional_info_for (get_cultural_key c r))"
  using get_cultural_key_cases [of c r]
  by (auto simp add: regional_contexts_def regional_info_for_def)

section \<open>Prompt construction\<close>

lemma calls_generate_content:
  "calls (snd (generate_content gen p w)) = calls w @ [p]"
  by (simp add: generate_content_def split: prod.splits)

lemma calls_create_analogy:
  "calls (snd (create_analogy gen req tq w)) = calls w @ [analogy_prompt req tq]"
  by (simp add: create_analogy_def calls_generate_content)

lemma calls_generate_exercises:
  "calls (snd (generate_exercises gen loads now req w)) = calls w @ [create_exercise_prompt req]"
  by (simp add: generate_exercises_def try_except_def bind_def ret_def lift_def Let_def
        generate_content_def split: prod.splits sum.splits)

text \<open>
  C9. The prompt that the analogy builder sends is a function of the request and the
  translated question alone, and the prompt that the exercise orchestrator sends is a
  function of the request alone: two runs on the same request send the same prompt,
  whatever the collaborator, its hidden state, the prompts sent before, the decoder and
  the clock.
\<close>

theorem prompt_construction_deterministic:
  "calls (snd (create_analogy gen1 req tq w1)) = calls w1 @ [analogy_prompt req tq] \<and>
   last (calls (snd (create_analogy gen1 req tq w1)))
     = last (calls (snd (create_analogy gen2 req tq w2))) \<and>
   calls (snd (generate_exercises gen1 loads1 now1 ereq w1))
     = calls w1 @ [create_exercise_prompt ereq] \<and>
   last (calls (snd (generate_exercises gen1 loads1 now1 ereq w1)))
     = last (calls (snd (generate_exercises gen2 loads2 now2 ereq w2)))"
  by (simp add: calls_create_analogy calls_generate_exercises)

section \<open>The language pipeline\<close>

text \<open>
  C8. When the call that detects the language fails, or when the language detected is
  not English and the call that translates the question fails, the language pipeline
  raises nothing: it returns the pair of \<open>English\<close> and the question as it was given.
\<close>

theorem process_question_falls_back:
  "(fst (gen (backend w) (detection_prompt q)) = Inl e
      \<longrightarrow> fst (process_question gen q pl w) = Inr (''English'', q)) \<and>
   (gen (backend w) (detection_prompt q) = (Inr t, b) \<and> lower (strip t) \<noteq> ''english'' \<and>
    fst (gen b (translation_prompt (strip t) q)) = Inl e
      \<longrightarrow> fst (process_question gen q pl w) = Inr (''English'', q))"
  by (auto simp add: process_question_def try_except_def bind_def ret_def Let_def
        generate_content_def split: prod.splits sum.splits)

theorem process_question_falls_back_witness:
  "fst (process_question failing_model ''kya?'' ''Hindi'' start_world)
     = Inr (''English'', ''kya?'') \<and>
   fst (process_question hindi_then_failing_model ''kya?'' ''Hindi'' start_world)
     = Inr (''English'', ''kya?'')"
proof -
  have d: "fst (failing_model (backend start_world) (detection_prompt ''kya?''))
            = Inl (Exception ''quota exceeded'')"
    by (simp add: failing_model_def)
  have h: "hindi_then_failing_model (backend start_world) (detection_prompt ''kya?'')
             = (Inr ''Hindi\<newline>'', Suc 0) \<and>
           lower (strip ''Hindi\<newline>'') \<noteq> ''english'' \<and>
           fst (hindi_then_failing_model (Suc 0)
                  (translation_prompt (strip ''Hindi\<newline>'') ''kya?''))
             = Inl (Exception ''quota exceeded'')"
    by code_simp
  from process_question_falls_back
         [where gen = failing_model and w = start_world and q = "''kya?''"
            and e = "Exception ''quota exceeded''" and pl = "''Hindi''"
            and t = "''Hindi\<newline>''" and b = "Suc 0"] d
       process_question_falls_back
         [where gen = hindi_then_failing_model and w = start_world and q = "''kya?''"
            and e = "Exception ''quota exceeded''" and pl = "''Hindi''"
            and t = "''Hindi\<newline>''" and b = "Suc 0"] h
  show ?thesis by blast
qed

text \<open>
  C7. The translate-out step calls the model, once and with the prompt that asks for a
  translation of the answer into the preferred language, exactly when neither the
  preferred language nor the detected language is English, compared without regard to
  case; it then returns the trimmed translation, or the answer if the call fails. In
  every other case it returns the answer unchanged and sends nothing: so it does for the
  detected language \<open>English\<close> and the preferred language \<open>Hindi\<close>.
\<close>

theorem translate_response_only_when_both_non_english:
  "(lower pl = ''english'' \<or> lower dl = ''english''
      \<longrightarrow> translate_response gen a pl dl w = (Inr a, w)) \<and>
   (lower pl \<noteq> ''english'' \<and> lower dl \<noteq> ''english''
      \<longrightarrow> calls (snd (translate_response gen a pl dl w))
            = calls w @ [translate_out_prompt pl a] \<and>
          fst (translate_response gen a pl dl w)
            = (case fst (gen (backend w) (translate_out_prompt pl a)) of
                 Inl e \<Rightarrow> Inr a
               | Inr t \<Rightarrow> Inr (strip t))) \<and>
   translate_response gen a ''Hindi'' ''English'' w = (Inr a, w)"
proof -
  have e: "lower ''English'' = ''english''" by code_simp
  show ?thesis
    by (auto simp add: e translate_response_def try_except_def bind_def ret_def
          generate_content_def split: prod.splits sum.splits)
qed

theorem translate_response_only_when_both_non_english_witness:
  "translate_response hindi_model ''Rain is like a well.'' ''Hindi'' ''ENGLISH'' start_world
     = (Inr ''Rain is like a well.'', start_world) \<and>
   calls (snd (translate_response hindi_model ''Rain is like a well.'' ''Hindi'' ''Tamil''
                 start_world))
     = [translate_out_prompt ''Hindi'' ''Rain is like a well.''] \<and>
   fst (translate_response hindi_model ''Rain is like a well.'' ''Hindi'' ''Tamil'' start_world)
     = Inr ''Hindi''"
proof -
  have l: "lower ''ENGLISH'' = ''english'' \<and> lower ''Hindi'' \<noteq> ''english'' \<and>
           lower ''Tamil'' \<noteq> ''english''"
    by code_simp
  have s: "strip '' Hindi '' = ''Hindi''" by code_simp
  from translate_response_only_when_both_non_english
         [where gen = hindi_model and a = "''Rain is like a well.''" and pl = "''Hindi''"
            and dl = "''ENGLISH''" and w = start_world]
       translate_response_only_when_both_non_english
         [where gen = hindi_model and a = "''Rain is like a well.''" and pl = "''Hindi''"
            and dl = "''Tamil''" and w = start_world] l s
  show ?thesis by (simp add: hindi_model_def start_world_def)
qed

section \<open>The endpoints\<close>

lemma generate_local_analogy_missing_key:
  "\<not> has_key ''student_context'' data \<or> \<not> has_key ''question'' data \<Longrightarrow>
   generate_local_analogy data w =
     (Inr (Inl (JObj [(''success'', JBool False),
                      (''error'', JStr ''Student context and question are required'')])), w)"
  by (auto simp add: generate_local_analogy_def ret_def)

lemma generate_personalized_exercises_in_context:
  "\<not> has_key ''student_profile'' data \<Longrightarrow>
   generate_personalized_exercises jsonify_in_context data w =
     (Inr (Inl (JObj [(''success'', JBool False),
                      (''error'', JStr ''Student profile is required'')], 400)), w)"
  by (simp add: generate_personalized_exercises_def jsonify_in_context_def
        try_except_def bind_def lift_def ret_def)

lemma generate_personalized_exercises_jsonify_raises:
  assumes "\<not> has_key ''student_profile'' data"
    and "jsonify (JObj [(''success'', JBool False),
                        (''error'', JStr ''Student profile is required'')]) = Inl e"
    and "jsonify (JObj [(''success'', JBool False), (''error'', JStr (str_exn e))]) = Inl e'"
  shows "generate_personalized_exercises jsonify data w = (Inl e', w)"
  using assms
  by (simp add: generate_personalized_exercises_def try_except_def bind_def lift_def ret_def)

lemma generate_personalized_exercises_outside_context:
  "\<not> has_key ''student_profile'' data \<Longrightarrow>
   generate_personalized_exercises (jsonify_outside_context m) data w = (Inl (RuntimeError m), w)"
  by (rule generate_personalized_exercises_jsonify_raises)
     (simp_all add: jsonify_outside_context_def)

text \<open>
  C5. A request mapping that lacks its required key is to be answered with a failure
  envelope, and nothing is to be sent to the model. The analogy endpoint does so: it
  returns the envelope with the message \<open>Student context and question are required\<close>
  and leaves the world as it was. The exercise endpoint builds its envelope with
  \<open>jsonify\<close>, which needs an application, and the repository creates none: on the
  mapping that holds only \<open>subject\<close>, \<open>jsonify\<close> raises \<open>RuntimeError\<close>, the handler
  calls \<open>jsonify\<close> again, and the exception leaves the endpoint. No envelope is
  returned; the world is as it was.
\<close>

theorem exercise_endpoint_raises_outside_context:
  "generate_local_analogy [(''subject'', JStr ''Mathematics'')] start_world =
     (Inr (Inl (JObj [(''success'', JBool False),
                      (''error'', JStr ''Student context and question are required'')])),
      start_world) \<and>
   generate_personalized_exercises (jsonify_outside_context m)
       [(''subject'', JStr ''Mathematics'')] start_world =
     (Inl (RuntimeError m), start_world)"
proof -
  have a: "\<not> has_key ''student_context'' [(''subject'', JStr ''Mathematics'')]"
    by (simp add: has_key_def)
  have b: "\<not> has_key ''student_profile'' [(''subject'', JStr ''Mathematics'')]"
    by (simp add: has_key_def)
  from a have "generate_local_analogy [(''subject'', JStr ''Mathematics'')] start_world =
     (Inr (Inl (JObj [(''success'', JBool False),
                      (''error'', JStr ''Student context and question are required'')])),
      start_world)"
    by (simp add: generate_local_analogy_missing_key)
  moreover from b have "generate_personalized_exercises (jsonify_outside_context m)
       [(''subject'', JStr ''Mathematics'')] start_world =
     (Inl (RuntimeError m), start_world)"
    by (rule generate_personalized_exercises_outside_context)
  ultimately show ?thesis by simp
qed

theorem exercise_endpoint_raises_outside_context_witness:
  "generate_local_analogy [(''subject'', JStr ''Mathematics'')] start_world =
     (Inr (Inl (JObj [(''success'', JBool False),
                      (''error'', JStr ''Student context and question are required'')])),
      start_world) \<and>
   generate_personalized_exercises
       (jsonify_outside_context ''Working outside of application context.'')
       [(''subject'', JStr ''Mathematics'')] start_world =
     (Inl (RuntimeError ''Working outside of application context.''), start_world)"
  by (rule exercise_endpoint_raises_outside_context)

section \<open>The orchestrators\<close>

lemma process_question_returns:
  "\<exists>r. fst (process_question gen q pl w) = Inr r"
  by (auto simp add: process_question_def try_except_def bind_def ret_def Let_def
        split: prod.splits sum.splits)

lemma translate_response_returns:
  "\<exists>r. fst (translate_response gen a pl dl w) = Inr r"
  by (auto simp add: translate_response_def try_except_def bind_def ret_def
        split: prod.splits sum.splits)







section \<open>The exercise parser\<close>

lemma foldl_fallback_step:
  "foldl (fallback_step req) (ex, [], n) lines =
     (ex @ synthesized req n (filter (\<lambda>line. line \<noteq> []) (map strip lines)), [],
      n + int (length (synthesized req n (filter (\<lambda>line. line \<noteq> []) (map strip lines)))))"
proof (induction lines arbitrary: ex n)
  case Nil
  show ?case by simp
next
  case (Cons l ls)
  show ?case
  proof (cases "strip l = []")
    case True
    then show ?thesis using Cons.IH by simp
  next
    case False
    show ?thesis
    proof (cases "n < exercise_count req")
      case True
      with False show ?thesis using Cons.IH [of "ex @ [JObj (new_exercise req n (strip l))]" "n + 1"]
        by (simp add: Let_def)
    next
      case False
      have z: "synthesized req n xs = []" for xs
        using False by (cases xs) simp_all
      have "foldl (fallback_step req) (ex, [], n) (l # ls) = foldl (fallback_step req) (ex, [], n) ls"
        using False by (simp add: Let_def)
      then show ?thesis using Cons.IH [of ex n] by (simp add: z)
    qed
  qed
qed

lemma create_fallback_exercises_eq:
  "create_fallback_exercises text req = JArr (synthesized req 0 (nonempty_lines text))"
  by (simp add: create_fallback_exercises_def nonempty_lines_def foldl_fallback_step Let_def)

lemma length_synthesized:
  "length (synthesized req n ls) = min (length ls) (nat (exercise_count req - n))"
proof (induction ls arbitrary: n)
  case Nil
  show ?case by simp
next
  case (Cons l ls)
  show ?case using Cons.IH [of "n + 1"] by (auto simp add: min_def)
qed

lemma nth_synthesized:
  "k < length (synthesized req n ls) \<Longrightarrow>
   synthesized req n ls ! k = JObj (new_exercise req (n + int k) (ls ! k))"
proof (induction ls arbitrary: n k)
  case Nil
  then show ?case by simp
next
  case (Cons l ls)
  then show ?case
    by (cases k) (auto split: if_splits simp add: add.commute add.left_commute)
qed

lemma find_char_notin: "c \<notin> set s \<Longrightarrow> find_char c s = - 1"
  by (induction s) (auto simp add: Let_def)

lemma find_char_nonneg: "find_char c s = - 1 \<or> 0 \<le> find_char c s"
  by (induction s) (auto simp add: Let_def)

lemma find_char_in: "c \<in> set s \<Longrightarrow> 0 \<le> find_char c s \<and> find_char c s < int (length s)"
proof (induction s)
  case Nil
  then show ?case by simp
next
  case (Cons x xs)
  show ?case
  proof (cases "x = c")
    case True
    then show ?thesis by simp
  next
    case False
    with Cons.prems have "c \<in> set xs" by simp
    from Cons.IH [OF this] False show ?thesis by (simp add: Let_def)
  qed
qed

lemma find_char_append: "c \<notin> set pre \<Longrightarrow> find_char c (pre @ c # rest) = int (length pre)"
  by (induction pre) (auto simp add: Let_def)

lemma rfind_char_notin: "c \<notin> set s \<Longrightarrow> rfind_char c s = - 1"
  by (simp add: rfind_char_def find_char_notin)

lemma rfind_char_append:
  "c \<notin> set post \<Longrightarrow> rfind_char c (xs @ c # post) = int (length xs)"
proof -
  assume a: "c \<notin> set post"
  have "rev (xs @ c # post) = rev post @ c # rev xs" by simp
  moreover have "c \<notin> set (rev post)" using a by simp
  ultimately have "find_char c (rev (xs @ c # post)) = int (length post)"
    using find_char_append [of c "rev post" "rev xs"] by simp
  then show ?thesis by (simp add: rfind_char_def)
qed

lemma slice_middle:
  "slice (pre @ obj @ post) (int (length pre)) (int (length pre + length obj)) = obj"
  by (simp add: slice_def Let_def)

lemma parse_no_braces:
  "CHR ''{'' \<notin> set text \<or> CHR ''}'' \<notin> set text \<Longrightarrow>
   parse_exercises_response loads text req = Inr (create_fallback_exercises text req)"
  by (auto simp add: parse_exercises_response_def Let_def find_char_notin rfind_char_notin)

lemma parse_object:
  assumes "CHR ''{'' \<notin> set pre" and "CHR ''}'' \<notin> set post"
  shows "parse_exercises_response loads (pre @ ''{'' @ body @ ''}'' @ post) req =
     (case loads (''{'' @ body @ ''}'') of
                    Inl (JSONDecodeError m) \<Rightarrow> Inr (create_fallback_exercises (pre @ ''{'' @ body @ ''}'' @ post) req)
                  | Inl e \<Rightarrow> Inl e
                  | Inr (JObj parsed_data) \<Rightarrow> Inr (dict_get parsed_data ''exercises'' (JArr []))
                  | Inr parsed_data \<Rightarrow> Inl (no_attribute parsed_data ''get''))"
proof -
  let ?t = "pre @ ''{'' @ body @ ''}'' @ post"
  have f: "find_char CHR ''{'' ?t = int (length pre)"
    using find_char_append [OF assms(1), of "body @ ''}'' @ post"] by simp
  have r: "rfind_char CHR ''}'' ?t = int (length pre + 1 + length body)"
    using rfind_char_append [OF assms(2), of "pre @ ''{'' @ body"] by simp
  have s: "slice ?t (int (length pre)) (int (length pre + 1 + length body) + 1) = ''{'' @ body @ ''}''"
    using slice_middle [of pre "''{'' @ body @ ''}''" post] by (simp add: add.commute add.left_commute)
  show ?thesis
    unfolding parse_exercises_response_def Let_def f r s by simp
qed


lemma parse_fallback:
  "CHR ''{'' \<notin> set text \<or> CHR ''}'' \<notin> set text \<or>
   (\<exists>m. loads (slice text (find_char CHR ''{'' text) (rfind_char CHR ''}'' text + 1))
          = Inl (JSONDecodeError m)) \<Longrightarrow>
   parse_exercises_response loads text req = Inr (create_fallback_exercises text req)"
  by (auto simp add: parse_exercises_response_def Let_def find_char_notin rfind_char_notin)


text \<open>
  C4. On a text without an opening brace or without a closing brace the parser takes the
  fallback: the text is split into its non-empty trimmed lines and, while fewer than
  \<open>exercise_count\<close> records have been made, each line gives one record, whose \<open>id\<close>
  counts from 1, whose \<open>question\<close> is the line, whose \<open>type\<close> is the first requested
  exercise type (\<open>short_answer\<close> when none is requested) and whose \<open>correct_answer\<close>
  and \<open>explanation\<close> are the fixed placeholders. Five non-empty lines and an
  \<open>exercise_count\<close> of 3 give exactly 3 records.
\<close>

theorem fallback_synthesizes_records:
  assumes "CHR ''{'' \<notin> set text \<or> CHR ''}'' \<notin> set text"
  shows "\<exists>recs. parse_exercises_response loads text req = Inr (JArr recs) \<and>
           length recs = min (length (nonempty_lines text)) (nat (exercise_count req)) \<and>
           (length (nonempty_lines text) = 5 \<and> exercise_count req = 3 \<longrightarrow> length recs = 3) \<and>
           (\<forall>k < length recs. \<exists>d. recs ! k = JObj d \<and>
               map_of d ''id'' = Some (JInt (int k + 1)) \<and>
               map_of d ''question'' = Some (JStr (nonempty_lines text ! k)) \<and>
               map_of d ''type'' = Some (JStr (case exercise_types req of
                                                [] \<Rightarrow> ''short_answer'' | t # ts \<Rightarrow> t)) \<and>
               map_of d ''correct_answer'' = Some (JStr ''Answer will be provided by teacher'') \<and>
               map_of d ''explanation'' = Some (JStr ''Detailed explanation will be provided''))"
proof -
  let ?recs = "synthesized req 0 (nonempty_lines text)"
  have p: "parse_exercises_response loads text req = Inr (JArr ?recs)"
    using assms by (simp add: parse_no_braces create_fallback_exercises_eq)
  have l: "length ?recs = min (length (nonempty_lines text)) (nat (exercise_count req))"
    by (simp add: length_synthesized)
  have f: "\<exists>d. ?recs ! k = JObj d \<and>
               map_of d ''id'' = Some (JInt (int k + 1)) \<and>
               map_of d ''question'' = Some (JStr (nonempty_lines text ! k)) \<and>
               map_of d ''type'' = Some (JStr (case exercise_types req of
                                                [] \<Rightarrow> ''short_answer'' | t # ts \<Rightarrow> t)) \<and>
               map_of d ''correct_answer'' = Some (JStr ''Answer will be provided by teacher'') \<and>
               map_of d ''explanation'' = Some (JStr ''Detailed explanation will be provided'')"
    if "k < length ?recs" for k
    using nth_synthesized [OF that] by (simp add: new_exercise_def)
  from p l f show ?thesis by auto
qed

theorem fallback_synthesizes_records_witness:
  "length (nonempty_lines five_lines) = 5 \<and>
   (\<exists>recs. parse_exercises_response json_loads five_lines (exercise_request_of 3) = Inr (JArr recs) \<and>
      length recs = 3 \<and>
      (\<exists>d. recs ! 0 = JObj d \<and> map_of d ''id'' = Some (JInt 1) \<and>
           map_of d ''question'' = Some (JStr ''What is 2 + 3?'')))"
proof -
  have a: "CHR ''{'' \<notin> set five_lines" by code_simp
  have n: "nonempty_lines five_lines =
      [''What is 2 + 3?'', ''What is 7 - 4?'', ''What is 6 * 2?'', ''What is 9 / 3?'', ''What is 5 + 5?'']"
    by code_simp
  have c: "exercise_count (exercise_request_of 3) = 3"
    by (simp add: exercise_request_of_def)
  from fallback_synthesizes_records [of five_lines json_loads "exercise_request_of 3"] a
  obtain recs where r: "parse_exercises_response json_loads five_lines (exercise_request_of 3) = Inr (JArr recs)"
    and l: "length recs = min (length (nonempty_lines five_lines)) (nat (exercise_count (exercise_request_of 3)))"
    and f: "\<forall>k < length recs. \<exists>d. recs ! k = JObj d \<and>
               map_of d ''id'' = Some (JInt (int k + 1)) \<and>
               map_of d ''question'' = Some (JStr (nonempty_lines five_lines ! k)) \<and>
               map_of d ''type'' = Some (JStr (case exercise_types (exercise_request_of 3) of
                                                [] \<Rightarrow> ''short_answer'' | t # ts \<Rightarrow> t)) \<and>
               map_of d ''correct_answer'' = Some (JStr ''Answer will be provided by teacher'') \<and>
               map_of d ''explanation'' = Some (JStr ''Detailed explanation will be provided'')"
    by blast
  from l have l3: "length recs = 3" by (simp add: n c)
  then have "0 < length recs" by simp
  with f obtain d where "recs ! 0 = JObj d" and "map_of d ''id'' = Some (JInt (int 0 + 1))"
    and "map_of d ''question'' = Some (JStr (nonempty_lines five_lines ! 0))"
    by blast
  with r l3 show ?thesis by (simp add: n)
qed


text \<open>
  C2, as stated, fails where the text holds a JSON object: the parser returns the
  \<open>exercises\<close> field as decoded, here two records for an \<open>exercise_count\<close> of 1.
\<close>

theorem json_path_exceeds_exercise_count:
  "parse_exercises_response json_loads two_exercises_text (exercise_request_of 1)
     = Inr (JArr [JObj [(''id'', JInt 1)], JObj [(''id'', JInt 2)]]) \<and>
   \<not> int (length [JObj [(''id'', JInt 1)], JObj [(''id'', JInt 2)]])
       \<le> exercise_count (exercise_request_of 1)"
  by code_simp


text \<open>
  C2, amended. Whenever the parser takes the fallback (the text has no opening brace, or
  no closing brace, or the decoder rejects the slice between the first opening and the
  last closing brace), it returns a list of at most \<open>exercise_count\<close> records, and
  none when \<open>exercise_count\<close> is negative. When the slice decodes, the list returned
  is the \<open>exercises\<close> field, of whatever length.
\<close>

theorem fallback_path_within_exercise_count:
  "CHR ''{'' \<notin> set text \<or> CHR ''}'' \<notin> set text \<or>
   (\<exists>m. loads (slice text (find_char CHR ''{'' text) (rfind_char CHR ''}'' text + 1))
          = Inl (JSONDecodeError m)) \<Longrightarrow>
   \<exists>recs. parse_exercises_response loads text req = Inr (JArr recs) \<and>
     int (length recs) \<le> max 0 (exercise_count req)"
  by (simp only: parse_fallback create_fallback_exercises_eq) (simp add: length_synthesized)

theorem fallback_path_within_exercise_count_witness:
  "(\<exists>recs. parse_exercises_response json_loads five_lines (exercise_request_of 3) = Inr (JArr recs) \<and>
     int (length recs) \<le> 3) \<and>
   (\<exists>recs. parse_exercises_response json_loads (''{'' @ no_exercises_body @ ''} }'') (exercise_request_of 1) = Inr (JArr recs) \<and>
     int (length recs) \<le> 1)"
proof -
  have a: "CHR ''{'' \<notin> set five_lines" by code_simp
  have b: "json_loads (slice (''{'' @ no_exercises_body @ ''} }'') (find_char CHR ''{'' (''{'' @ no_exercises_body @ ''} }''))
              (rfind_char CHR ''}'' (''{'' @ no_exercises_body @ ''} }'') + 1)) = Inl (JSONDecodeError [])"
    by code_simp
  have c: "exercise_count (exercise_request_of n) = n" for n
    by (simp add: exercise_request_of_def)
  from fallback_path_within_exercise_count [of five_lines json_loads "exercise_request_of 3"] a
       fallback_path_within_exercise_count [of "''{'' @ no_exercises_body @ ''} }''" json_loads "exercise_request_of 1"] b
  show ?thesis by (simp add: c)
qed


text \<open>
  C3, as stated, fails on a text that holds one JSON object and a closing brace after
  it: the slice runs to the last closing brace, the decoder rejects it, and the parser
  falls back to one synthesized record instead of the object's empty list.
\<close>

theorem stray_brace_defeats_round_trip:
  "json_loads (''{'' @ no_exercises_body @ ''}'') = Inr (JObj [(''exercises'', JArr [])]) \<and>
   parse_exercises_response json_loads (''{'' @ no_exercises_body @ ''} }'') (exercise_request_of 1)
     = Inr (JArr [JObj [
         (''id'', JInt 1),
         (''type'', JStr ''multiple_choice''),
         (''question'', JStr (''{'' @ no_exercises_body @ ''} }'')),
         (''correct_answer'', JStr ''Answer will be provided by teacher''),
         (''explanation'', JStr ''Detailed explanation will be provided''),
         (''difficulty'', JStr ''beginner''),
         (''learning_objective'', JStr ''Practice Basic Operations concepts''),
         (''personalization_notes'', JStr ''Adapted for visual learning style'')]]) \<and>
   parse_exercises_response json_loads (''{'' @ no_exercises_body @ ''} }'') (exercise_request_of 1)
     \<noteq> Inr (JArr [])"
  by code_simp


text \<open>
  C3, amended. When the text is a JSON object with no opening brace before it and no
  closing brace after it, the parser returns what the object holds under \<open>exercises\<close>:
  those records, unmodified and however many; and the empty list when the object has no
  such field.
\<close>

theorem json_object_round_trip:
  assumes "CHR ''{'' \<notin> set pre" and "CHR ''}'' \<notin> set post"
    and "loads (''{'' @ body @ ''}'') = Inr (JObj d)"
  shows "parse_exercises_response loads (pre @ ''{'' @ body @ ''}'' @ post) req
           = Inr (dict_get d ''exercises'' (JArr [])) \<and>
         (map_of d ''exercises'' = Some (JArr recs) \<longrightarrow>
            parse_exercises_response loads (pre @ ''{'' @ body @ ''}'' @ post) req = Inr (JArr recs)) \<and>
         (\<not> has_key ''exercises'' d \<longrightarrow>
            parse_exercises_response loads (pre @ ''{'' @ body @ ''}'' @ post) req = Inr (JArr []))"
  using parse_object [OF assms(1) assms(2), of loads body req] assms(3)
  by (simp add: dict_get_def has_key_def)

theorem json_object_round_trip_witness:
  "parse_exercises_response json_loads (''Here you go: '' @ ''{'' @ one_exercise_body @ ''}'' @ '' Good luck!'') (exercise_request_of 5)
     = Inr (JArr [JObj [(''id'', JInt 1)]]) \<and>
   parse_exercises_response json_loads (''Sorry: '' @ ''{'' @ [] @ ''}'' @ ''.'') (exercise_request_of 5)
     = Inr (JArr [])"
proof -
  have a: "CHR ''{'' \<notin> set ''Here you go: '' \<and> CHR ''}'' \<notin> set '' Good luck!'' \<and>
           CHR ''{'' \<notin> set ''Sorry: '' \<and> CHR ''}'' \<notin> set ''.''"
    by simp
  have b: "json_loads (''{'' @ one_exercise_body @ ''}'') = Inr (JObj [(''exercises'', JArr [JObj [(''id'', JInt 1)]])])"
    by code_simp
  have c: "json_loads (''{'' @ [] @ ''}'') = Inr (JObj [])"
    by code_simp
  from json_object_round_trip [of "''Here you go: ''" "'' Good luck!''" json_loads one_exercise_body
          "[(''exercises'', JArr [JObj [(''id'', JInt 1)]])]" "exercise_request_of 5" "[JObj [(''id'', JInt 1)]]"]
       json_object_round_trip [of "''Sorry: ''" "''.''" json_loads "[]" "[]" "exercise_request_of 5" "[]"]
       a b c
  show ?thesis by (simp add: has_key_def dict_get_def)
qed

section \<open>The decoder's count suffices\<close>

text \<open>
  The decoder counts its recursion down from twice the length of the text plus two. The
  count never decides a result: a value scanned with any count is scanned, with the same
  rest, from that start.
\<close>

lemma length_skip_ws: "length (skip_ws s) \<le> length s"
  by (simp add: skip_ws_def length_dropWhile_le)

lemma length_scan_string:
  "scan_string acc s = Some (str, r) \<Longrightarrow> length r < length s"
proof (induction s arbitrary: acc rule: length_induct)
  case (1 s)
  note IH = "1.IH" [rule_format]
  show ?case
  proof (cases s)
    case Nil
    with "1.prems" show ?thesis by simp
  next
    case outer: (Cons c s')
    show ?thesis
    proof (cases s')
      case Nil
      with outer "1.prems" show ?thesis by (simp split: if_splits)
    next
      case (Cons e cs)
      with outer have s: "s = c # e # cs" by simp
      consider (quote) "c = CHR 0x22"
        | (uni) "c \<noteq> CHR 0x22" "c = CHR 0x5C" "e = CHR ''u''"
        | (esc) "c \<noteq> CHR 0x22" "c = CHR 0x5C" "e \<noteq> CHR ''u''"
        | (plain) "c \<noteq> CHR 0x22" "c \<noteq> CHR 0x5C"
        by blast
      then show ?thesis
      proof cases
        case quote
        with "1.prems" s show ?thesis by simp
      next
        case uni
        with "1.prems" s have "\<exists>h1 h2 h3 h4 rest ch. cs = h1 # h2 # h3 # h4 # rest \<and>
            scan_string (ch # acc) rest = Some (str, r)"
          by (auto split: list.splits option.splits if_splits)
        then obtain h1 h2 h3 h4 rest ch
          where cs: "cs = h1 # h2 # h3 # h4 # rest"
            and rec: "scan_string (ch # acc) rest = Some (str, r)"
          by blast
        from IH [OF _ rec] s cs have "length r < length rest" by simp
        with s cs show ?thesis by simp
      next
        case esc
        with "1.prems" s have "\<exists>ch. scan_string (ch # acc) cs = Some (str, r)"
          by (auto split: option.splits)
        then obtain ch
          where rec: "scan_string (ch # acc) cs = Some (str, r)"
          by blast
        from IH [OF _ rec] s have "length r < length cs" by simp
        with s show ?thesis by simp
      next
        case plain
        with "1.prems" s have rec: "scan_string (c # acc) (e # cs) = Some (str, r)"
          by (auto split: if_splits)
        from IH [OF _ rec] s have "length r < length (e # cs)" by simp
        with s show ?thesis by simp
      qed
    qed
  qed
qed

lemma length_scan_sign: "length (snd (scan_sign s)) \<le> length s"
  by (simp add: scan_sign_def split: list.splits)

lemma length_scan_int_part: "length (snd (scan_int_part s)) \<le> length s"
proof (cases s)
  case Nil
  then show ?thesis by (simp add: scan_int_part_def)
next
  case (Cons c cs)
  then show ?thesis
    using length_dropWhile_le [of is_digit s]
    by (simp add: scan_int_part_def)
qed

lemma length_scan_frac: "length (snd (scan_frac s)) \<le> length s"
proof (cases s)
  case Nil
  then show ?thesis by (simp add: scan_frac_def)
next
  case (Cons c cs)
  then show ?thesis
    using length_dropWhile_le [of is_digit cs]
    by (simp add: scan_frac_def)
qed

lemma length_scan_exp: "length (snd (scan_exp s)) \<le> length s"
proof (cases s)
  case Nil
  then show ?thesis by (simp add: scan_exp_def)
next
  case (Cons c cs)
  show ?thesis
  proof (cases cs)
    case Nil
    with Cons show ?thesis by (simp add: scan_exp_def)
  next
    case (Cons d ds)
    with \<open>s = c # cs\<close> show ?thesis
      using length_dropWhile_le [of is_digit ds] length_dropWhile_le [of is_digit cs]
      by (simp add: scan_exp_def Let_def)
  qed
qed

lemma length_scan_number:
  assumes "scan_number s = Some (v, r)"
  shows "length r \<le> length s"
proof -
  obtain sign s1 where a: "scan_sign s = (sign, s1)" by (cases "scan_sign s")
  obtain ipart s2 where b: "scan_int_part s1 = (ipart, s2)" by (cases "scan_int_part s1")
  obtain frac s3 where c: "scan_frac s2 = (frac, s3)" by (cases "scan_frac s2")
  obtain expo s4 where d: "scan_exp s3 = (expo, s4)" by (cases "scan_exp s3")
  from assms a b c d have r: "r = s4"
    by (simp add: scan_number_def split: if_splits)
  from length_scan_sign [of s] a have "length s1 \<le> length s" by simp
  moreover from length_scan_int_part [of s1] b have "length s2 \<le> length s1" by simp
  moreover from length_scan_frac [of s2] c have "length s3 \<le> length s2" by simp
  moreover from length_scan_exp [of s3] d have "length s4 \<le> length s3" by simp
  ultimately show ?thesis using r by simp
qed


lemma scan_value_scalar:
  "c \<noteq> CHR ''{'' \<Longrightarrow> c \<noteq> CHR ''['' \<Longrightarrow>
   scan_value (Suc n) (c # cs) = scan_value (Suc m) (c # cs)"
  by simp

lemma scan_value_scalar_length:
  assumes "c \<noteq> CHR ''{''" and "c \<noteq> CHR ''[''"
    and "scan_value (Suc n) (c # cs) = Some (v, r)"
  shows "length r \<le> length (c # cs)"
proof (cases "c = CHR 0x22")
  case True
  with assms(3) obtain str where "scan_string [] cs = Some (str, r)"
    by (auto split: option.splits)
  from length_scan_string [OF this] show ?thesis by simp
next
  case False
  show ?thesis
  proof (cases "scan_number (c # cs)")
    case None
    with False assms show ?thesis
      by (auto split: if_splits)
  next
    case (Some p)
    with False assms have "starts_with ''null'' (c # cs) \<or> starts_with ''true'' (c # cs) \<or>
        starts_with ''false'' (c # cs) \<or> scan_number (c # cs) = Some (v, r)"
      by (auto split: if_splits)
    moreover have "length r \<le> length (c # cs)"
      if "starts_with ''null'' (c # cs) \<or> starts_with ''true'' (c # cs) \<or>
          starts_with ''false'' (c # cs)"
      using that False assms by (auto split: if_splits)
    ultimately show ?thesis using length_scan_number [of "c # cs" v r] by blast
  qed
qed

lemma scan_fuel:
  "(\<forall>s v r. scan_value n s = Some (v, r) \<longrightarrow>
      length r \<le> length s \<and>
      (\<forall>m. 2 * length s + 1 \<le> m + 2 * length r \<longrightarrow> scan_value m s = Some (v, r))) \<and>
   (\<forall>acc s vs r. scan_array n acc s = Some (vs, r) \<longrightarrow>
      length r < length s \<and>
      (\<forall>m. 2 * length s \<le> m + 2 * length r \<longrightarrow> scan_array m acc s = Some (vs, r))) \<and>
   (\<forall>acc s d r. scan_object n acc s = Some (d, r) \<longrightarrow>
      length r < length s \<and>
      (\<forall>m. 2 * length s \<le> m + 2 * length r \<longrightarrow> scan_object m acc s = Some (d, r)))"
proof (induction n)
  case 0
  show ?case by simp
next
  case (Suc n)
  then have IHv: "\<And>s v r. scan_value n s = Some (v, r) \<Longrightarrow>
      length r \<le> length s \<and>
      (\<forall>m. 2 * length s + 1 \<le> m + 2 * length r \<longrightarrow> scan_value m s = Some (v, r))"
    and IHa: "\<And>acc s vs r. scan_array n acc s = Some (vs, r) \<Longrightarrow>
      length r < length s \<and>
      (\<forall>m. 2 * length s \<le> m + 2 * length r \<longrightarrow> scan_array m acc s = Some (vs, r))"
    and IHo: "\<And>acc s d r. scan_object n acc s = Some (d, r) \<Longrightarrow>
      length r < length s \<and>
      (\<forall>m. 2 * length s \<le> m + 2 * length r \<longrightarrow> scan_object m acc s = Some (d, r))"
    by blast+
  have v: "length r \<le> length s \<and>
      (\<forall>m. 2 * length s + 1 \<le> m + 2 * length r \<longrightarrow> scan_value m s = Some (v, r))"
    if a: "scan_value (Suc n) s = Some (v, r)" for s v r
  proof (cases s)
    case Nil
    with a show ?thesis by simp
  next
    case (Cons c cs)
    consider (obj) "c = CHR ''{''" | (arr) "c = CHR ''[''"
      | (scalar) "c \<noteq> CHR ''{''" "c \<noteq> CHR ''[''"
      by blast
    then show ?thesis
    proof cases
      case scalar
      from scalar a Cons have l: "length r \<le> length s"
        using scan_value_scalar_length [of c n cs v r] by simp
      have "scan_value m s = Some (v, r)" if b: "2 * length s + 1 \<le> m + 2 * length r" for m
      proof -
        from b l obtain m' where "m = Suc m'" by (cases m) auto
        with scalar a Cons show ?thesis
          using scan_value_scalar [of c m' cs n] by simp
      qed
      with l show ?thesis by blast
    next
      case obj
      show ?thesis
      proof (cases "starts_with ''}'' (skip_ws cs)")
        case True
        with obj a Cons have r: "r = tl (skip_ws cs)" and vv: "v = JObj []" by auto
        from r have l: "length r \<le> length s"
          using length_skip_ws [of cs] Cons by simp
        have "scan_value m s = Some (v, r)" if b: "2 * length s + 1 \<le> m + 2 * length r" for m
        proof -
          from b l obtain m' where "m = Suc m'" by (cases m) auto
          with obj True r vv Cons show ?thesis by simp
        qed
        with l show ?thesis by blast
      next
        case False
        with obj a Cons obtain d where o: "scan_object n [] (skip_ws cs) = Some (d, r)"
          and vv: "v = JObj d"
          by (auto split: option.splits)
        from IHo [OF o] have l0: "length r < length (skip_ws cs)"
          and f: "\<And>m. 2 * length (skip_ws cs) \<le> m + 2 * length r \<Longrightarrow>
                    scan_object m [] (skip_ws cs) = Some (d, r)"
          by blast+
        from l0 have l: "length r \<le> length s"
          using length_skip_ws [of cs] Cons by simp
        have "scan_value m s = Some (v, r)" if b: "2 * length s + 1 \<le> m + 2 * length r" for m
        proof -
          from b l obtain m' where m: "m = Suc m'" by (cases m) auto
          with b Cons have "2 * length (skip_ws cs) \<le> m' + 2 * length r"
            using length_skip_ws [of cs] by simp
          from f [OF this] m obj False vv Cons show ?thesis by simp
        qed
        with l show ?thesis by blast
      qed
    next
      case arr
      show ?thesis
      proof (cases "starts_with '']'' (skip_ws cs)")
        case True
        with arr a Cons have r: "r = tl (skip_ws cs)" and vv: "v = JArr []" by auto
        from r have l: "length r \<le> length s"
          using length_skip_ws [of cs] Cons by simp
        have "scan_value m s = Some (v, r)" if b: "2 * length s + 1 \<le> m + 2 * length r" for m
        proof -
          from b l obtain m' where "m = Suc m'" by (cases m) auto
          with arr True r vv Cons show ?thesis by simp
        qed
        with l show ?thesis by blast
      next
        case False
        with arr a Cons obtain vs where o: "scan_array n [] (skip_ws cs) = Some (vs, r)"
          and vv: "v = JArr vs"
          by (auto split: option.splits)
        from IHa [OF o] have l0: "length r < length (skip_ws cs)"
          and f: "\<And>m. 2 * length (skip_ws cs) \<le> m + 2 * length r \<Longrightarrow>
                    scan_array m [] (skip_ws cs) = Some (vs, r)"
          by blast+
        from l0 have l: "length r \<le> length s"
          using length_skip_ws [of cs] Cons by simp
        have "scan_value m s = Some (v, r)" if b: "2 * length s + 1 \<le> m + 2 * length r" for m
        proof -
          from b l obtain m' where m: "m = Suc m'" by (cases m) auto
          with b Cons have "2 * length (skip_ws cs) \<le> m' + 2 * length r"
            using length_skip_ws [of cs] by simp
          from f [OF this] m arr False vv Cons show ?thesis by simp
        qed
        with l show ?thesis by blast
      qed
    qed
  qed
  have ar: "length r < length s \<and>
      (\<forall>m. 2 * length s \<le> m + 2 * length r \<longrightarrow> scan_array m acc s = Some (vs, r))"
    if a: "scan_array (Suc n) acc s = Some (vs, r)" for acc s vs r
  proof -
    from a obtain x r1 where x: "scan_value n s = Some (x, r1)"
      by (auto split: option.splits)
    from IHv [OF x] have l1: "length r1 \<le> length s"
      and f1: "\<And>m. 2 * length s + 1 \<le> m + 2 * length r1 \<Longrightarrow> scan_value m s = Some (x, r1)"
      by blast+
    let ?t = "skip_ws r1"
    have lt: "length ?t \<le> length r1" by (rule length_skip_ws)
    show ?thesis
    proof (cases "starts_with '']'' ?t")
      case True
      with a x have r: "r = tl ?t" and vv: "vs = acc @ [x]" by auto
      from True have "?t \<noteq> []" by (auto simp add: starts_with_def)
      with r have lr: "length r < length ?t" by (cases ?t) auto
      with lt l1 have l: "length r < length s" by simp
      have "scan_array m acc s = Some (vs, r)" if b: "2 * length s \<le> m + 2 * length r" for m
      proof -
        from b l obtain m' where m: "m = Suc m'" by (cases m) auto
        with b lr lt have "2 * length s + 1 \<le> m' + 2 * length r1" by simp
        from f1 [OF this] m True r vv show ?thesis by simp
      qed
      with l show ?thesis by blast
    next
      case False
      with a x have c: "starts_with '','' ?t"
        and rec: "scan_array n (acc @ [x]) (skip_ws (tl ?t)) = Some (vs, r)"
        by (auto split: if_splits)
      let ?u = "skip_ws (tl ?t)"
      from c have "?t \<noteq> []" by (auto simp add: starts_with_def)
      then have "length (tl ?t) < length ?t" by (cases ?t) auto
      with length_skip_ws [of "tl ?t"] have lu: "length ?u < length ?t" by simp
      from IHa [OF rec] have l2: "length r < length ?u"
        and f2: "\<And>m. 2 * length ?u \<le> m + 2 * length r \<Longrightarrow>
                   scan_array m (acc @ [x]) ?u = Some (vs, r)"
        by blast+
      from l2 lu lt l1 have l: "length r < length s" by simp
      have "scan_array m acc s = Some (vs, r)" if b: "2 * length s \<le> m + 2 * length r" for m
      proof -
        from b l obtain m' where m: "m = Suc m'" by (cases m) auto
        from m b l2 lu lt have b1: "2 * length s + 1 \<le> m' + 2 * length r1" by simp
        from m b lu lt l1 have b2: "2 * length ?u \<le> m' + 2 * length r" by simp
        from f1 [OF b1] f2 [OF b2] m False c show ?thesis by simp
      qed
      with l show ?thesis by blast
    qed
  qed
  have ob: "length r < length s \<and>
      (\<forall>m. 2 * length s \<le> m + 2 * length r \<longrightarrow> scan_object m acc s = Some (d, r))"
    if a: "scan_object (Suc n) acc s = Some (d, r)" for acc s d r
  proof -
    from a have q: "starts_with dq s" by (auto split: if_splits)
    then have sne: "s \<noteq> []" by (auto simp add: starts_with_def)
    from a q obtain k r0 where k: "scan_string [] (tl s) = Some (k, r0)"
      by (auto split: option.splits)
    from length_scan_string [OF k] sne have l0: "length r0 < length s"
      by (cases s) auto
    from a q k have col: "starts_with '':'' (skip_ws r0)" by (auto split: if_splits)
    then have "skip_ws r0 \<noteq> []" by (auto simp add: starts_with_def)
    then have "length (tl (skip_ws r0)) < length (skip_ws r0)" by (cases "skip_ws r0") auto
    with length_skip_ws [of r0] have lc: "length (tl (skip_ws r0)) < length r0" by simp
    let ?w = "skip_ws (tl (skip_ws r0))"
    from lc length_skip_ws [of "tl (skip_ws r0)"] have lw: "length ?w < length r0" by simp
    from a q k col obtain x r1 where x: "scan_value n ?w = Some (x, r1)"
      by (auto split: option.splits)
    from IHv [OF x] have l1: "length r1 \<le> length ?w"
      and f1: "\<And>m. 2 * length ?w + 1 \<le> m + 2 * length r1 \<Longrightarrow> scan_value m ?w = Some (x, r1)"
      by blast+
    let ?t = "skip_ws r1"
    have lt: "length ?t \<le> length r1" by (rule length_skip_ws)
    show ?thesis
    proof (cases "starts_with ''}'' ?t")
      case True
      with a q k col x have r: "r = tl ?t" and vv: "d = dict_set acc k x" by auto
      from True have "?t \<noteq> []" by (auto simp add: starts_with_def)
      with r have lr: "length r < length ?t" by (cases ?t) auto
      with lt l1 lw l0 have l: "length r < length s" by simp
      have "scan_object m acc s = Some (d, r)" if b: "2 * length s \<le> m + 2 * length r" for m
      proof -
        from b l obtain m' where m: "m = Suc m'" by (cases m) auto
        with b lr lt lw l0 have "2 * length ?w + 1 \<le> m' + 2 * length r1" by simp
        from f1 [OF this] m True r vv q k col show ?thesis by simp
      qed
      with l show ?thesis by blast
    next
      case False
      with a q k col x have c: "starts_with '','' ?t"
        and rec: "scan_object n (dict_set acc k x) (skip_ws (tl ?t)) = Some (d, r)"
        by (auto split: if_splits)
      let ?u = "skip_ws (tl ?t)"
      from c have "?t \<noteq> []" by (auto simp add: starts_with_def)
      then have "length (tl ?t) < length ?t" by (cases ?t) auto
      with length_skip_ws [of "tl ?t"] have lu: "length ?u < length ?t" by simp
      from IHo [OF rec] have l2: "length r < length ?u"
        and f2: "\<And>m. 2 * length ?u \<le> m + 2 * length r \<Longrightarrow>
                   scan_object m (dict_set acc k x) ?u = Some (d, r)"
        by blast+
      from l2 lu lt l1 lw l0 have l: "length r < length s" by simp
      have "scan_object m acc s = Some (d, r)" if b: "2 * length s \<le> m + 2 * length r" for m
      proof -
        from b l obtain m' where m: "m = Suc m'" by (cases m) auto
        from m b l2 lu lt lw l0 have b1: "2 * length ?w + 1 \<le> m' + 2 * length r1" by simp
        from m b lu lt l1 lw l0 have b2: "2 * length ?u \<le> m' + 2 * length r" by simp
        from f1 [OF b1] f2 [OF b2] m False c q k col show ?thesis by simp
      qed
      with l show ?thesis by blast
    qed
  qed
  from v ar ob show ?case by blast
qed

lemma json_loads_fuel:
  assumes "scan_value n (skip_ws s) = Some (v, r)"
  shows "scan_value (2 * length s + 2) (skip_ws s) = Some (v, r)"
proof -
  from scan_fuel [of n] assms
  have "\<forall>m. 2 * length (skip_ws s) + 1 \<le> m + 2 * length r \<longrightarrow>
          scan_value m (skip_ws s) = Some (v, r)"
    by blast
  moreover have "2 * length (skip_ws s) + 1 \<le> (2 * length s + 2) + 2 * length r"
    using length_skip_ws [of s] by simp
  ultimately show ?thesis by blast
qed

lemma json_loads_any_count:
  assumes "scan_value n (skip_ws s) = Some (v, r)"
  shows "json_loads s = (if skip_ws r = [] then Inr v else Inl (JSONDecodeError []))"
  using json_loads_fuel [OF assms] by (simp add: json_loads_def)


end
